theory Spec2Isabelle
  imports Complex_Main "HOL-Library.Word"
begin

unbundle bit_operations_syntax

section \<open>ORCA dense matrices: storage, views, row operations, elimination kernels\<close>

text \<open>
  The embedding follows the latest \<^verbatim>\<open>Mat.h\<close> of the repository (the copy that holds
  \<^verbatim>\<open>det\<close>, \<^verbatim>\<open>rref\<close> and \<^verbatim>\<open>inv\<close>), \<^verbatim>\<open>ORCA/ORCAMath.h\<close> for \<^verbatim>\<open>index_t\<close> and the
  sticky-compute masks, \<^verbatim>\<open>ORCA/Fill.h\<close> for the fill types and \<^verbatim>\<open>ORCAMath/Vec.h\<close> for
  the vector class and the row projection \<^verbatim>\<open>MatRow\<close>.

  \<^item> \<^verbatim>\<open>index_t\<close> is \<^verbatim>\<open>long long\<close>; indices and dimensions are \<^typ>\<open>int\<close> (no claim
    depends on 64-bit overflow of an index). \<^verbatim>\<open>ORCA_SIZE_TYPE\<close> of \<^verbatim>\<open>Vec.h\<close> is not
    defined in the sources at hand; it is compared with \<^verbatim>\<open>< 0\<close> like \<^verbatim>\<open>index_t\<close> and is
    taken to be the same signed type.
  \<^item> The scalar \<^verbatim>\<open>T\<close> is any field: the code uses \<^verbatim>\<open>+\<close>, \<^verbatim>\<open>*\<close>, \<^verbatim>\<open>/\<close>, unary minus,
    comparison with \<^verbatim>\<open>0\<close> and the literals \<^verbatim>\<open>0\<close>, \<^verbatim>\<open>1\<close>.
  \<^item> \<^verbatim>\<open>T* _mat\<close> is a pointer into the C heap. Matrix objects are copied by the
    implicit (member-wise) copy constructor (the templated constructors taking
    \<^verbatim>\<open>Mat<T1>\<close> by value are never copy constructors), so two objects may share one
    buffer. The heap is therefore explicit: a list of buffers, a buffer address being
    its position, a cell being \<open>None\<close> until it is first written (\<^verbatim>\<open>malloc\<close> leaves it
    indeterminate).
  \<^item> A C++ exception is \<open>Inl\<close> of the error. A read or write through a pointer that
    leaves its buffer, or a read of a cell never written, is undefined behaviour in
    C++; the model stops there with \<open>Inl UndefinedBehaviour\<close>.
\<close>

subsection \<open>Errors (Except.h) and the heap\<close>

datatype error =
    OutOfBoundsError
  | BadDimensionsError
  | EmptyElementError
  | UnknownFillError
  | UndefinedBehaviour

type_synonym addr = nat
type_synonym 'a heap = "'a option list list"

text \<open>\<^verbatim>\<open>static_cast<T*>(malloc(sizeof(T) * n))\<close>: a fresh buffer of \<open>n\<close> indeterminate cells.\<close>

definition malloc :: "'a heap \<Rightarrow> int \<Rightarrow> addr \<times> 'a heap" where
  "malloc h n = (length h, h @ [replicate (nat n) None])"

text \<open>Reading \<^verbatim>\<open>*(p + off)\<close> and writing \<^verbatim>\<open>*(p + off) = v\<close>.\<close>

definition load :: "'a heap \<Rightarrow> addr \<Rightarrow> int \<Rightarrow> error + 'a" where
  "load h p off =
     (if p < length h \<and> 0 \<le> off \<and> off < int (length (h ! p))
      then (case h ! p ! nat off of Some v \<Rightarrow> Inr v | None \<Rightarrow> Inl UndefinedBehaviour)
      else Inl UndefinedBehaviour)"

definition store :: "'a heap \<Rightarrow> addr \<Rightarrow> int \<Rightarrow> 'a \<Rightarrow> error + 'a heap" where
  "store h p off v =
     (if p < length h \<and> 0 \<le> off \<and> off < int (length (h ! p))
      then Inr (h[p := (h ! p)[nat off := Some v]])
      else Inl UndefinedBehaviour)"

text \<open>
  A counted loop \<^verbatim>\<open>for (i = lo; i < n; ++i) body\<close> over a state \<open>s\<close>; an exception thrown
  by the body leaves the loop. Every bound in the sources is \<^verbatim>\<open>_n_rows\<close>, \<^verbatim>\<open>_n_cols\<close>
  or \<^verbatim>\<open>length()\<close> of an object whose dimensions no loop body assigns, so the bound is
  read once.
\<close>

function for_loop :: "int \<Rightarrow> int \<Rightarrow> (int \<Rightarrow> 's \<Rightarrow> error + 's) \<Rightarrow> 's \<Rightarrow> error + 's" where
  "for_loop i n body s =
     (if i < n
      then (case body i s of Inl e \<Rightarrow> Inl e | Inr s' \<Rightarrow> for_loop (i + 1) n body s')
      else Inr s)"
  by pat_completeness auto
termination
  by (relation "measure (\<lambda>(i, n, body, s). nat (n - i))") auto

declare for_loop.simps [simp del]

subsection \<open>Sticky-compute masks (ORCAMath.h) and fill types (Fill.h)\<close>

definition ORCA_STICKY_COMPUTE_DIAG_MASK :: "64 word" where
  "ORCA_STICKY_COMPUTE_DIAG_MASK = push_bit 0 1"

definition ORCA_STICKY_COMPUTE_DET_MASK :: "64 word" where
  "ORCA_STICKY_COMPUTE_DET_MASK = push_bit 1 1"

definition ORCA_STICKY_COMPUTE_INV_MASK :: "64 word" where
  "ORCA_STICKY_COMPUTE_INV_MASK = push_bit 2 1"

type_synonym fillType = int

definition fill_zeros :: fillType where "fill_zeros = 0"
definition fill_ones :: fillType where "fill_ones = 1"
definition fill_value :: fillType where "fill_value = 2"
definition fill_eye :: fillType where "fill_eye = 3"
definition fill_rand :: fillType where "fill_rand = 4"

subsection \<open>The matrix object\<close>

text \<open>
  The members of \<^verbatim>\<open>Mat<T>\<close>. \<^verbatim>\<open>MatInv* _inv\<close> points to a \<^verbatim>\<open>MatInv\<close> object, which is a
  \<^verbatim>\<open>Mat<T>\<close> whose own \<^verbatim>\<open>_inv\<close> is never assigned nor read: the pointee is kept as the
  members below \<^verbatim>\<open>_inv\<close>, and \<open>None\<close> is a pointer that was never assigned.
\<close>

record 'a Mat0 =
  mat :: addr
  n_rows :: int
  n_cols :: int
  stickyComputeMask :: "64 word"
  det_m :: 'a

record 'a Mat = "'a Mat0" +
  inv_m :: "'a Mat0 option"

text \<open>
  \<^verbatim>\<open>_allocate\<close>. It runs inside a constructor, on an object whose members are still
  indeterminate: \<open>this\<close> is that raw object, and only the members assigned change.
\<close>

definition allocate ::
  "('a, 'z) Mat0_scheme \<Rightarrow> int \<Rightarrow> int \<Rightarrow> 'a heap \<Rightarrow> error + (('a, 'z) Mat0_scheme \<times> 'a heap)" where
  "allocate this r c h =
     (if r < 0 \<or> c < 0 then Inl BadDimensionsError
      else if r = 0 \<or> c = 0 then Inl EmptyElementError
      else (let (p, h') = malloc h (r * c)
            in Inr (this\<lparr>n_rows := r, n_cols := c, mat := p, stickyComputeMask := 0\<rparr>, h')))"

text \<open>\<^verbatim>\<open>_address\<close>: the offset of the element from \<^verbatim>\<open>_mat\<close>.\<close>

definition address :: "('a, 'z) Mat0_scheme \<Rightarrow> int \<Rightarrow> int \<Rightarrow> error + int" where
  "address this row col =
     (if row > n_rows this \<or> row < 0 \<or> col > n_cols this \<or> col < 0
      then Inl OutOfBoundsError
      else Inr (col + row * n_cols this))"

text \<open>\<^verbatim>\<open>at\<close> (named \<open>at_elem\<close>: \<open>at\<close> is notation of HOL).\<close>

definition at_elem :: "('a, 'z) Mat0_scheme \<Rightarrow> 'a heap \<Rightarrow> int \<Rightarrow> int \<Rightarrow> error + 'a" where
  "at_elem this h row col =
     (case address this row col of
        Inl e \<Rightarrow> Inl e
      | Inr off \<Rightarrow> load h (mat this) off)"

text \<open>\<^verbatim>\<open>set\<close> (named \<open>set_elem\<close>: \<open>set\<close> is a constant of HOL).\<close>

definition set_elem ::
  "int \<Rightarrow> int \<Rightarrow> 'a \<Rightarrow> ('a, 'z) Mat0_scheme \<times> 'a heap \<Rightarrow> error + (('a, 'z) Mat0_scheme \<times> 'a heap)" where
  "set_elem row col elem s =
     (case s of (this, h) \<Rightarrow>
        (case address this row col of
           Inl e \<Rightarrow> Inl e
         | Inr off \<Rightarrow>
             (case store h (mat this) off elem of
                Inl e \<Rightarrow> Inl e
              | Inr h' \<Rightarrow> Inr (this\<lparr>stickyComputeMask := 0\<rparr>, h'))))"

text \<open>Sequencing of calls that may throw: the first exception ends the computation.\<close>

definition ebind :: "error + 'a \<Rightarrow> ('a \<Rightarrow> error + 'b) \<Rightarrow> error + 'b" where
  "ebind x f = (case x of Inl e \<Rightarrow> Inl e | Inr v \<Rightarrow> f v)"

lemma ebind_Inl [simp]: "ebind (Inl e) f = Inl e"
  by (simp add: ebind_def)

lemma ebind_Inr [simp]: "ebind (Inr v) f = f v"
  by (simp add: ebind_def)

lemma ebind_weak_cong [cong]: "x = y \<Longrightarrow> ebind x f = ebind y f"
  by simp

lemma ebind_cong [fundef_cong]:
  "x = y \<Longrightarrow> (\<And>v. y = Inr v \<Longrightarrow> f v = g v) \<Longrightarrow> ebind x f = ebind y g"
  by (cases y) simp_all

lemma ebind_eq_Inr: "ebind x f = Inr r \<longleftrightarrow> (\<exists>v. x = Inr v \<and> f v = Inr r)"
  by (cases x) simp_all

text \<open>
  The protected default constructor \<^verbatim>\<open>Mat()\<close> assigns nothing, and C++ leaves the
  members indeterminate. The model gives them fixed values; every constructor below
  assigns \<^verbatim>\<open>_mat\<close>, \<^verbatim>\<open>_n_rows\<close> and \<^verbatim>\<open>_n_cols\<close> before it reads them, and the
  theorems about the cache quantify over all objects.
\<close>

definition Mat_default :: "'a::zero Mat" where
  "Mat_default = \<lparr>mat = 0, n_rows = 0, n_cols = 0, stickyComputeMask = 0, det_m = 0, inv_m = None\<rparr>"

definition rows :: "('a, 'z) Mat0_scheme \<Rightarrow> int" where
  "rows this = n_rows this"

definition cols :: "('a, 'z) Mat0_scheme \<Rightarrow> int" where
  "cols this = n_cols this"

subsection \<open>Fillers and constructors\<close>

definition zeros :: "('a::zero, 'z) Mat0_scheme \<times> 'a heap \<Rightarrow> error + (('a, 'z) Mat0_scheme \<times> 'a heap)" where
  "zeros s =
     for_loop 0 (n_rows (fst s)) (\<lambda>i.
       for_loop 0 (n_cols (fst s)) (\<lambda>j. set_elem i j 0)) s"

text \<open>\<^verbatim>\<open>randFill\<close>: \<open>draws i j\<close> is the value the generator yields for position \<open>(i, j)\<close>.\<close>

definition randFill ::
  "(int \<Rightarrow> int \<Rightarrow> 'a) \<Rightarrow> ('a, 'z) Mat0_scheme \<times> 'a heap \<Rightarrow> error + (('a, 'z) Mat0_scheme \<times> 'a heap)" where
  "randFill draws s =
     for_loop 0 (n_rows (fst s)) (\<lambda>i.
       for_loop 0 (n_cols (fst s)) (\<lambda>j. set_elem i j (draws i j))) s"

definition eye :: "('a::zero_neq_one, 'z) Mat0_scheme \<times> 'a heap \<Rightarrow> error + (('a, 'z) Mat0_scheme \<times> 'a heap)" where
  "eye s =
     ebind (zeros s) (\<lambda>s1.
       for_loop 0 (min (n_rows (fst s1)) (n_cols (fst s1))) (\<lambda>i. set_elem i i 1) s1)"

definition fill :: "'a \<Rightarrow> ('a, 'z) Mat0_scheme \<times> 'a heap \<Rightarrow> error + (('a, 'z) Mat0_scheme \<times> 'a heap)" where
  "fill elem s =
     for_loop 0 (n_rows (fst s)) (\<lambda>i.
       for_loop 0 (n_cols (fst s)) (\<lambda>j. set_elem i j elem)) s"

definition ones :: "('a::one, 'z) Mat0_scheme \<times> 'a heap \<Rightarrow> error + (('a, 'z) Mat0_scheme \<times> 'a heap)" where
  "ones s = fill 1 s"

text \<open>\<^verbatim>\<open>Mat(index_t rows, index_t cols)\<close> (the parameters are \<open>r\<close>, \<open>c\<close> here).\<close>

definition Mat_dims :: "int \<Rightarrow> int \<Rightarrow> 'a::zero heap \<Rightarrow> error + ('a Mat \<times> 'a heap)" where
  "Mat_dims r c h = allocate Mat_default r c h"

text \<open>
  \<^verbatim>\<open>Mat(Mat<T1> *_castM)\<close>, the constructor behind \<^verbatim>\<open>Mat<T> clone = this;\<close>: a new
  buffer, filled element by element (here \<^verbatim>\<open>T1 = T\<close>).
\<close>

definition Mat_from_ptr :: "'a::zero Mat \<Rightarrow> 'a heap \<Rightarrow> error + ('a Mat \<times> 'a heap)" where
  "Mat_from_ptr castM h =
     ebind (allocate Mat_default (rows castM) (cols castM) h) (\<lambda>s.
       for_loop 0 (rows (fst s)) (\<lambda>i.
         for_loop 0 (cols (fst s)) (\<lambda>j s'.
           ebind (at_elem castM (snd s') i j) (\<lambda>v. set_elem i j v s'))) s)"

text \<open>
  \<^verbatim>\<open>Mat(std::initializer_list<std::initializer_list<T> >)\<close>. The first row is read
  through \<^verbatim>\<open>*(_castValues.begin())\<close>, which is undefined for an empty list.
\<close>

definition Mat_init :: "'a::zero list list \<Rightarrow> 'a heap \<Rightarrow> error + ('a Mat \<times> 'a heap)" where
  "Mat_init castValues h =
     (case castValues of
        [] \<Rightarrow> Inl UndefinedBehaviour
      | first # _ \<Rightarrow>
          ebind (allocate Mat_default (int (length castValues)) (int (length first)) h) (\<lambda>s.
            for_loop 0 (n_rows (fst s)) (\<lambda>i.
              for_loop 0 (n_cols (fst s)) (\<lambda>j s'.
                if int (length (castValues ! nat i)) \<noteq> n_cols (fst s') then Inl BadDimensionsError
                else set_elem i j (castValues ! nat i ! nat j) s')) s))"

text \<open>\<^verbatim>\<open>Mat(index_t rows, index_t cols, fill::fillType type)\<close>.\<close>

definition Mat_fill ::
  "(int \<Rightarrow> int \<Rightarrow> 'a) \<Rightarrow> int \<Rightarrow> int \<Rightarrow> fillType \<Rightarrow> 'a::zero_neq_one heap \<Rightarrow> error + ('a Mat \<times> 'a heap)" where
  "Mat_fill draws r c type h =
     ebind (allocate Mat_default r c h) (\<lambda>s.
       if type = fill_zeros then zeros s
       else if type = fill_eye then eye s
       else if type = fill_ones then ones s
       else if type = fill_rand then randFill draws s
       else Inl UnknownFillError)"

text \<open>
  \<^verbatim>\<open>MatInv\<close>: its own \<^verbatim>\<open>_allocate\<close> (which does not reset the mask) and the constructor
  \<^verbatim>\<open>MatInv(Mat<T> _castM)\<close>.
\<close>

definition MatInv_allocate ::
  "'a Mat0 \<Rightarrow> int \<Rightarrow> int \<Rightarrow> 'a heap \<Rightarrow> error + ('a Mat0 \<times> 'a heap)" where
  "MatInv_allocate this r c h =
     (if r < 0 \<or> c < 0 then Inl BadDimensionsError
      else if r = 0 \<or> c = 0 then Inl EmptyElementError
      else (let (p, h') = malloc h (r * c)
            in Inr (this\<lparr>n_rows := r, n_cols := c, mat := p\<rparr>, h')))"

definition MatInv_ctor :: "'a::zero Mat \<Rightarrow> 'a heap \<Rightarrow> error + ('a Mat0 \<times> 'a heap)" where
  "MatInv_ctor castM h =
     ebind (MatInv_allocate (Mat0.truncate (Mat_default :: 'a Mat)) (rows castM) (cols castM) h) (\<lambda>s.
       for_loop 0 (rows (fst s)) (\<lambda>i.
         for_loop 0 (cols (fst s)) (\<lambda>j s'.
           ebind (at_elem castM (snd s') i j) (\<lambda>v. set_elem i j v s'))) s)"

subsection \<open>Vectors (Vec.h)\<close>

record 'a Vec = "'a Mat" +
  n_elems :: int

definition Vec_default :: "'a::zero Vec" where
  "Vec_default = Mat.extend Mat_default (Vec.fields 0)"

definition Vec_allocate :: "'a Vec \<Rightarrow> int \<Rightarrow> 'a heap \<Rightarrow> error + ('a Vec \<times> 'a heap)" where
  "Vec_allocate this n h =
     (if n < 0 then Inl EmptyElementError
      else (let (p, h') = malloc h n
            in Inr (this\<lparr>mat := p, n_elems := n, n_cols := n, n_rows := 1\<rparr>, h')))"

definition length_vec :: "'a Vec \<Rightarrow> int" where
  "length_vec this = n_elems this"

definition Vec_address :: "'a Vec \<Rightarrow> int \<Rightarrow> error + int" where
  "Vec_address this elem =
     (if elem < 0 \<or> elem > length_vec this then Inl OutOfBoundsError else Inr elem)"

text \<open>\<^verbatim>\<open>Vec(ORCA_SIZE_TYPE elements)\<close>.\<close>

definition Vec_elements :: "int \<Rightarrow> 'a::zero heap \<Rightarrow> error + ('a Vec \<times> 'a heap)" where
  "Vec_elements elements h = Vec_allocate Vec_default elements h"

text \<open>\<^verbatim>\<open>Vec::set(index, elem)\<close> and \<^verbatim>\<open>Vec::at(index)\<close>.\<close>

definition Vec_set :: "int \<Rightarrow> 'a \<Rightarrow> 'a Vec \<times> 'a heap \<Rightarrow> error + ('a Vec \<times> 'a heap)" where
  "Vec_set index elem s =
     (case s of (this, h) \<Rightarrow>
        ebind (Vec_address this index) (\<lambda>off.
        ebind (store h (mat this) off elem) (\<lambda>h'.
          Inr (this\<lparr>stickyComputeMask := 0\<rparr>, h'))))"

definition Vec_at :: "'a Vec \<Rightarrow> 'a heap \<Rightarrow> int \<Rightarrow> error + 'a" where
  "Vec_at this h index = ebind (Vec_address this index) (\<lambda>off. load h (mat this) off)"

text \<open>
  Modelled from the spec: \<^verbatim>\<open>Vec<T>::prod()\<close> is called by \<^verbatim>\<open>det\<close> but the \<^verbatim>\<open>Vec.h\<close> at
  hand does not define it (named \<open>prod_vec\<close> here). The spec reads it as the product of the elements
  ("\<^verbatim>\<open>multiplier * product(diagonal of fully reduced matrix)\<close>").
\<close>

definition prod_vec :: "'a::monoid_mult Vec \<Rightarrow> 'a heap \<Rightarrow> error + 'a" where
  "prod_vec this h =
     for_loop 0 (length_vec this) (\<lambda>i acc. ebind (Vec_at this h i) (\<lambda>v. Inr (acc * v))) 1"

subsection \<open>Row projection (Vec.h), row operations, diagonal\<close>

text \<open>
  \<^verbatim>\<open>Mat<T>::MatRow\<close> (Vec.h): a \<^verbatim>\<open>RowVec<T>\<close>, hence a \<^verbatim>\<open>Vec<T>\<close>, with the members
  \<^verbatim>\<open>_matrix\<close> (the matrix pointed to, here \<open>row_matrix\<close>) and \<^verbatim>\<open>_row\<close> (here
  \<open>row_index\<close>). The pointer constructor \<^verbatim>\<open>MatRow(Mat<T>* matrix, ORCA_SIZE_TYPE row)\<close>
  runs after the default constructors of the bases, which assign nothing, and
  allocates no buffer; \<^verbatim>\<open>at(index)\<close> forwards to the matrix.
\<close>

record 'a MatRow = "'a Vec" +
  row_matrix :: "'a Mat"
  row_index :: int

definition MatRow_ctor :: "'a::zero Mat \<Rightarrow> int \<Rightarrow> 'a MatRow" where
  "MatRow_ctor m row =
     (Vec.extend Vec_default (MatRow.fields m row))
       \<lparr>n_elems := cols m, n_cols := cols m, n_rows := 1\<rparr>"

definition MatRow_at :: "'a MatRow \<Rightarrow> 'a heap \<Rightarrow> int \<Rightarrow> error + 'a" where
  "MatRow_at this h index = at_elem (row_matrix this) h (row_index this) index"

text \<open>\<^verbatim>\<open>getRow\<close> (Mat.h).\<close>

definition getRow :: "'a::zero Mat \<Rightarrow> int \<Rightarrow> error + 'a MatRow" where
  "getRow this row =
     (if row > n_rows this \<or> row < 0 then Inl OutOfBoundsError
      else Inr (MatRow_ctor this row))"

definition setRow :: "int \<Rightarrow> 'a Vec \<Rightarrow> 'a Mat \<times> 'a heap \<Rightarrow> error + ('a Mat \<times> 'a heap)" where
  "setRow row vec s =
     (if length_vec vec \<noteq> n_cols (fst s) then Inl BadDimensionsError
      else for_loop 0 (n_cols (fst s)) (\<lambda>i s'.
             ebind (Vec_at vec (snd s') i) (\<lambda>v. set_elem row i v s')) s)"

definition rowSwap :: "int \<Rightarrow> int \<Rightarrow> 'a::zero Mat \<times> 'a heap \<Rightarrow> error + ('a Mat \<times> 'a heap)" where
  "rowSwap r1 r2 s =
     (case s of (this, h) \<Rightarrow>
        ebind (getRow this r1) (\<lambda>r1Temp.
        ebind (Vec_elements (n_cols this) h) (\<lambda>v0.
        ebind (for_loop 0 (n_cols this) (\<lambda>i v.
                 ebind (MatRow_at r1Temp (snd v) i) (\<lambda>x. Vec_set i x v)) v0) (\<lambda>(r1TempLoaded, h1).
        ebind (for_loop 0 (n_cols this) (\<lambda>i s'.
                 ebind (at_elem (fst s') (snd s') r2 i) (\<lambda>x. set_elem r1 i x s')) (this, h1)) (\<lambda>s2.
        setRow r2 r1TempLoaded s2)))))"

definition rowMutliply :: "int \<Rightarrow> 'a::times \<Rightarrow> 'a Mat \<times> 'a heap \<Rightarrow> error + ('a Mat \<times> 'a heap)" where
  "rowMutliply r1 t1 s =
     for_loop 0 (n_cols (fst s)) (\<lambda>i s'.
       ebind (at_elem (fst s') (snd s') r1 i) (\<lambda>x. set_elem r1 i (t1 * x) s')) s"

text \<open>\<^verbatim>\<open>rowAdd(r1, r2, multiply)\<close>.\<close>

definition rowAdd :: "int \<Rightarrow> int \<Rightarrow> 'a::semiring_0 \<Rightarrow> 'a Mat \<times> 'a heap \<Rightarrow> error + ('a Mat \<times> 'a heap)" where
  "rowAdd r1 r2 multiply s =
     for_loop 0 (n_cols (fst s)) (\<lambda>i s'.
       ebind (at_elem (fst s') (snd s') r1 i) (\<lambda>x.
       ebind (at_elem (fst s') (snd s') r2 i) (\<lambda>y.
         set_elem r1 i (x + multiply * y) s'))) s"

text \<open>\<^verbatim>\<open>diag()\<close> (the sticky-compute part is under \<^verbatim>\<open>#if 0\<close>).\<close>

definition diag :: "'a::zero Mat \<Rightarrow> 'a heap \<Rightarrow> error + ('a Vec \<times> 'a heap)" where
  "diag this h =
     ebind (Vec_elements (min (n_rows this) (n_cols this)) h) (\<lambda>res.
       for_loop 0 (length_vec (fst res)) (\<lambda>i v.
         ebind (at_elem this (snd v) i i) (\<lambda>x. Vec_set i x v)) res)"

subsection \<open>Elimination kernels\<close>

text \<open>
  The pivot search, the same text in \<^verbatim>\<open>det\<close> and in both \<^verbatim>\<open>rref\<close>:
  \<^verbatim>\<open>
    index_t i = r;
    while (m.at(i,lead) == 0) {
        ++i;
        if (m.rows() == i) {
            i = r; ++lead;
            if (m.cols() == lead) { return ...; }
        }
    }
  \<close>
  \<open>None\<close> is the \<^verbatim>\<open>return\<close> inside the loop, \<open>Some (i, lead)\<close> its normal end.
\<close>

lemma at_elem_InrD:
  "at_elem m h i l = Inr v \<Longrightarrow> 0 \<le> i \<and> i \<le> n_rows m \<and> 0 \<le> l \<and> l \<le> n_cols m"
  by (auto simp: at_elem_def address_def split: if_splits)

function pivot_search ::
  "('a::zero, 'z) Mat0_scheme \<Rightarrow> 'a heap \<Rightarrow> int \<Rightarrow> int \<Rightarrow> int \<Rightarrow> error + (int \<times> int) option" where
  "pivot_search m h r i lead =
     (case at_elem m h i lead of
        Inl e \<Rightarrow> Inl e
      | Inr v \<Rightarrow>
          if v = 0 then
            (if rows m = i + 1 then
               (if cols m = lead + 1 then Inr None
                else pivot_search m h r r (lead + 1))
             else pivot_search m h r (i + 1) lead)
          else Inr (Some (i, lead)))"
  by pat_completeness auto
termination
proof (relation "measures [\<lambda>(m, h, r, i, lead). nat (n_cols m + 1 - lead),
                           \<lambda>(m, h, r, i, lead). nat (n_rows m + 2 - i)]", goal_cases)
  case 1
  show ?case by simp
next
  case (2 m h r i lead v)
  then show ?case using at_elem_InrD[of m h i lead v] by auto
next
  case (3 m h r i lead v)
  then show ?case using at_elem_InrD[of m h i lead v] by auto
qed

declare pivot_search.simps [simp del]

text \<open>
  How a loop over the rows ends: by a \<^verbatim>\<open>return\<close> in its body or by running out of rows.
\<close>

datatype ('r, 's) loop_exit = Returned 'r | Completed 's

text \<open>
  The \<^verbatim>\<open>for (r = 0; r < matClone.rows(); ++r)\<close> loop of \<^verbatim>\<open>det\<close>; \<open>n\<close> is
  \<^verbatim>\<open>matClone.rows()\<close>. \<open>Returned\<close> is one of the two \<^verbatim>\<open>return 0\<close>.
\<close>

function det_loop ::
  "int \<Rightarrow> int \<Rightarrow> int \<Rightarrow> 'a::field \<Rightarrow> 'a Mat \<times> 'a heap
     \<Rightarrow> error + ('a heap, 'a \<times> 'a Mat \<times> 'a heap) loop_exit" where
  "det_loop n r lead multiplier s =
     (if r < n then
        (if cols (fst s) < lead then Inr (Returned (snd s))
         else
           ebind (pivot_search (fst s) (snd s) r r lead) (\<lambda>p.
             case p of
               None \<Rightarrow> Inr (Returned (snd s))
             | Some (i, lead') \<Rightarrow>
                 ebind (rowSwap i r s) (\<lambda>s1.
                 ebind (at_elem (fst s1) (snd s1) r lead') (\<lambda>a.
                 ebind (if a \<noteq> 0
                        then ebind (at_elem (fst s1) (snd s1) r lead') (\<lambda>b.
                             ebind (at_elem (fst s1) (snd s1) r lead') (\<lambda>c.
                             ebind (rowMutliply r (1 / c) s1) (\<lambda>s2.
                               Inr (multiplier * (if (i - r) mod 2 = 0 then 1 else - 1) * b, s2))))
                        else Inr (multiplier * (if (i - r) mod 2 = 0 then 1 else - 1), s1))
                   (\<lambda>(multiplier', s2).
                 ebind (for_loop r (rows (fst s2)) (\<lambda>i s'.
                          if i \<noteq> r
                          then ebind (at_elem (fst s') (snd s') i lead') (\<lambda>x. rowAdd i r (- x) s')
                          else Inr s') s2) (\<lambda>s3.
                   det_loop n (r + 1) (lead' + 1) multiplier' s3))))))
      else Inr (Completed (multiplier, s)))"
  by pat_completeness auto
termination
  by (relation "measure (\<lambda>(n, r, lead, multiplier, s). nat (n - r))") auto

declare det_loop.simps [simp del]

text \<open>
  \<^verbatim>\<open>det()\<close>. The result is the returned value, the object (whose cache members may
  have been written) and the heap.
\<close>

definition det :: "'a::field Mat \<times> 'a heap \<Rightarrow> error + ('a \<times> 'a Mat \<times> 'a heap)" where
  "det s =
     (case s of (this, h) \<Rightarrow>
        if stickyComputeMask this AND ORCA_STICKY_COMPUTE_DET_MASK \<noteq> 0
        then Inr (det_m this, this, h)
        else if n_rows this \<noteq> n_cols this then Inl BadDimensionsError
        else
          ebind (Mat_from_ptr this h) (\<lambda>matClone.
          ebind (det_loop (rows (fst matClone)) 0 0 1 matClone) (\<lambda>ex.
            case ex of
              Returned h' \<Rightarrow> Inr (0, this, h')
            | Completed (multiplier, matClone', h1) \<Rightarrow>
                ebind (diag matClone' h1) (\<lambda>(d, h2).
                ebind (prod_vec d h2) (\<lambda>p.
                  Inr (multiplier * p,
                       this\<lparr>stickyComputeMask :=
                              stickyComputeMask this OR ORCA_STICKY_COMPUTE_DET_MASK,
                            det_m := multiplier * p\<rparr>,
                       h2))))))"

text \<open>The row loop of \<^verbatim>\<open>rref()\<close>; every exit returns the clone.\<close>

function rref_loop ::
  "int \<Rightarrow> int \<Rightarrow> int \<Rightarrow> 'a::field Mat \<times> 'a heap \<Rightarrow> error + ('a Mat \<times> 'a heap)" where
  "rref_loop n r lead s =
     (if r < n then
        (if cols (fst s) < lead then Inr s
         else
           ebind (pivot_search (fst s) (snd s) r r lead) (\<lambda>p.
             case p of
               None \<Rightarrow> Inr s
             | Some (i, lead') \<Rightarrow>
                 ebind (rowSwap i r s) (\<lambda>s1.
                 ebind (at_elem (fst s1) (snd s1) r lead') (\<lambda>a.
                 ebind (if a \<noteq> 0
                        then ebind (at_elem (fst s1) (snd s1) r lead') (\<lambda>b.
                               rowMutliply r (1 / b) s1)
                        else Inr s1) (\<lambda>s2.
                 ebind (for_loop 0 (rows (fst s2)) (\<lambda>i s'.
                          if i \<noteq> r
                          then ebind (at_elem (fst s') (snd s') i lead') (\<lambda>x. rowAdd i r (- x) s')
                          else Inr s') s2) (\<lambda>s3.
                   rref_loop n (r + 1) (lead' + 1) s3))))))
      else Inr s)"
  by pat_completeness auto
termination
  by (relation "measure (\<lambda>(n, r, lead, s). nat (n - r))") auto

declare rref_loop.simps [simp del]

definition rref :: "'a::field Mat \<Rightarrow> 'a heap \<Rightarrow> error + ('a Mat \<times> 'a heap)" where
  "rref this h =
     ebind (Mat_from_ptr this h) (\<lambda>m1Clone.
       rref_loop (rows (fst m1Clone)) 0 0 m1Clone)"

text \<open>
  The row loop of \<^verbatim>\<open>rref(Mat<T> _m2)\<close> over \<^verbatim>\<open>_m1Clone\<close>, \<^verbatim>\<open>_m2Clone\<close> and the heap.
\<close>

function rref_aug_loop ::
  "int \<Rightarrow> int \<Rightarrow> int \<Rightarrow> 'a::field Mat \<times> 'a Mat \<times> 'a heap \<Rightarrow> error + ('a Mat \<times> 'a heap)" where
  "rref_aug_loop n r lead s =
     (case s of (m1, m2, h) \<Rightarrow>
      if r < n then
        (if cols m1 < lead then Inr (m2, h)
         else
           ebind (pivot_search m1 h r r lead) (\<lambda>p.
             case p of
               None \<Rightarrow> Inr (m2, h)
             | Some (i, lead') \<Rightarrow>
                 ebind (if i \<noteq> r
                        then ebind (rowSwap i r (m1, h)) (\<lambda>(m1a, ha).
                             ebind (rowSwap i r (m2, ha)) (\<lambda>(m2a, hb).
                               Inr (m1a, m2a, hb)))
                        else Inr (m1, m2, h)) (\<lambda>(m1b, m2b, hb).
                 ebind (at_elem m1b hb r lead') (\<lambda>a.
                 ebind (if a \<noteq> 0
                        then ebind (at_elem m1b hb r lead') (\<lambda>b.
                             ebind (rowMutliply r (1 / b) (m2b, hb)) (\<lambda>(m2c, hc).
                             ebind (at_elem m1b hc r lead') (\<lambda>c.
                             ebind (rowMutliply r (1 / c) (m1b, hc)) (\<lambda>(m1d, hd).
                             ebind (at_elem m1d hd r lead') (\<lambda>d.
                             ebind (rowMutliply r (1 / d) (m2c, hd)) (\<lambda>(m2e, he).
                               Inr (m1d, m2e, he)))))))
                        else Inr (m1b, m2b, hb)) (\<lambda>s2.
                 ebind (for_loop 0 (rows (fst s2)) (\<lambda>i (m1f, m2f, hf).
                          if i \<noteq> r
                          then ebind (at_elem m1f hf i lead') (\<lambda>x.
                               ebind (rowAdd i r (- x) (m2f, hf)) (\<lambda>(m2g, hg).
                               ebind (at_elem m1f hg i lead') (\<lambda>y.
                               ebind (rowAdd i r (- y) (m1f, hg)) (\<lambda>(m1h, hh).
                                 Inr (m1h, m2g, hh)))))
                          else Inr (m1f, m2f, hf)) s2) (\<lambda>s3.
                   rref_aug_loop n (r + 1) (lead' + 1) s3))))))
      else Inr (m2, h))"
  by pat_completeness auto
termination
  by (relation "measure (\<lambda>(n, r, lead, s). nat (n - r))") auto

declare rref_aug_loop.simps [simp del]

text \<open>
  \<^verbatim>\<open>rref(Mat<T> _m2)\<close>. \<^verbatim>\<open>Mat<T> _m1Clone = this;\<close> goes through \<^verbatim>\<open>Mat(Mat<T1>*)\<close> and
  copies the elements. \<^verbatim>\<open>Mat<T> _m2Clone = _m2;\<close> and the by-value parameter \<^verbatim>\<open>_m2\<close>
  itself go through the implicit copy constructor, which copies the members: the
  pointer \<^verbatim>\<open>_mat\<close> is copied, the buffer is shared with the caller's matrix.
\<close>

definition rref_aug :: "'a::field Mat \<Rightarrow> 'a Mat \<Rightarrow> 'a heap \<Rightarrow> error + ('a Mat \<times> 'a heap)" where
  "rref_aug this m2 h =
     ebind (Mat_from_ptr this h) (\<lambda>(m1Clone, h1).
       (let m2Clone = m2
        in rref_aug_loop (rows m1Clone) 0 0 (m1Clone, m2Clone, h1)))"

text \<open>
  \<^verbatim>\<open>inv()\<close>. \<^verbatim>\<open>return *this->_inv;\<close> copies the members of the \<^verbatim>\<open>MatInv\<close> object into
  the returned \<^verbatim>\<open>Mat<T>\<close>.
\<close>

definition Mat_of_MatInv :: "'a Mat0 \<Rightarrow> 'a Mat" where
  "Mat_of_MatInv mi = Mat0.extend mi (Mat.fields None)"

text \<open>(named \<open>inv_mat\<close>: \<open>inv\<close> is a constant of HOL)\<close>

definition inv_mat :: "'a::field Mat \<times> 'a heap \<Rightarrow> error + ('a Mat \<times> 'a Mat \<times> 'a heap)" where
  "inv_mat s =
     (case s of (this, h) \<Rightarrow>
        if stickyComputeMask this AND ORCA_STICKY_COMPUTE_INV_MASK \<noteq> 0
        then (case inv_m this of
                None \<Rightarrow> Inl UndefinedBehaviour
              | Some mi \<Rightarrow> Inr (Mat_of_MatInv mi, this, h))
        else if n_rows this \<noteq> n_cols this then Inl BadDimensionsError
        else
          ebind (Mat_fill (\<lambda>i j. 0) (n_rows this) (n_cols this) fill_eye h) (\<lambda>(e, h1).
          ebind (rref_aug this e h1) (\<lambda>(res, h2).
          ebind (MatInv_ctor res h2) (\<lambda>(mi, h3).
            Inr (Mat_of_MatInv mi,
                 this\<lparr>inv_m := Some mi,
                      stickyComputeMask :=
                        stickyComputeMask this OR ORCA_STICKY_COMPUTE_INV_MASK\<rparr>,
                 h3)))))"

subsection \<open>Views: transpose and sub-range\<close>

text \<open>
  \<^verbatim>\<open>MatTr\<close> and \<^verbatim>\<open>SubMat\<close> derive from \<^verbatim>\<open>Mat<T>\<close>, keep a pointer \<^verbatim>\<open>_matrix\<close> to the
  matrix they present and override the virtual \<^verbatim>\<open>at\<close>. A matrix seen through a
  \<^verbatim>\<open>Mat<T>*\<close> is one of three classes; the first component of a view is its own
  \<^verbatim>\<open>Mat<T>\<close> part (of which the constructors assign \<^verbatim>\<open>_n_rows\<close> and \<^verbatim>\<open>_n_cols\<close> only),
  \<open>matrix\<close> is the pointee of \<^verbatim>\<open>_matrix\<close>.
\<close>

datatype 'a view =
    Owner (base: "'a Mat")
  | MatTr (base: "'a Mat") (matrix: "'a view")
  | SubMat (base: "'a Mat") (matrix: "'a view") (sub_r1: int) (sub_r2: int) (sub_c1: int) (sub_c2: int)

text \<open>\<^verbatim>\<open>rows()\<close> and \<^verbatim>\<open>cols()\<close> are not virtual: they read the object's own members.\<close>

definition rows_v :: "'a view \<Rightarrow> int" where
  "rows_v this = rows (base this)"

definition cols_v :: "'a view \<Rightarrow> int" where
  "cols_v this = cols (base this)"

definition MatTr_ctor :: "'a::zero view \<Rightarrow> 'a view" where
  "MatTr_ctor m = MatTr (Mat_default\<lparr>n_cols := rows_v m, n_rows := cols_v m\<rparr>) m"

definition SubMat_ctor :: "'a::zero view \<Rightarrow> int \<Rightarrow> int \<Rightarrow> int \<Rightarrow> int \<Rightarrow> error + 'a view" where
  "SubMat_ctor m r1 r2 c1 c2 =
     (if r2 < r1 \<or> c2 < c1 then Inl BadDimensionsError
      else Inr (SubMat (Mat_default\<lparr>n_rows := r2 - r1 + 1, n_cols := c2 - c1 + 1\<rparr>) m r1 r2 c1 c2))"

text \<open>The virtual \<^verbatim>\<open>at\<close>, dispatched on the class of the object.\<close>

fun at_v :: "'a view \<Rightarrow> 'a heap \<Rightarrow> int \<Rightarrow> int \<Rightarrow> error + 'a" where
  "at_v (Owner m) h row col = at_elem m h row col"
| "at_v (MatTr b m) h row col = at_v m h col row"
| "at_v (SubMat b m r1 r2 c1 c2) h row col =
     (if row < 0 \<or> row > n_rows b \<or> col < 0 \<or> col > n_cols b then Inl OutOfBoundsError
      else at_v m h (row + r1) (col + c1))"

text \<open>\<^verbatim>\<open>t()\<close> and \<^verbatim>\<open>range(row1, row2, col1, col2)\<close>.\<close>

definition t :: "'a::zero view \<Rightarrow> 'a view" where
  "t this = MatTr_ctor this"

definition range_v :: "'a::zero view \<Rightarrow> int \<Rightarrow> int \<Rightarrow> int \<Rightarrow> int \<Rightarrow> error + 'a view" where
  "range_v this row1 row2 col1 col2 = SubMat_ctor this row1 row2 col1 col2"

subsection \<open>Comparison\<close>

text \<open>
  \<^verbatim>\<open>bool operator == (Mat<T1> m1, Mat<T2> m2)\<close>. The two matrices may have different
  scalar types, so each has its heap; \<open>ne\<close> is the scalars' \<^verbatim>\<open>!=\<close>. The inner and the
  outer loop, each with the \<^verbatim>\<open>return false\<close> of the body: \<open>Inr False\<close> is that return,
  \<open>Inr True\<close> the end of the loop.
\<close>

function eq_cols ::
  "('a \<Rightarrow> 'b \<Rightarrow> bool) \<Rightarrow> 'a Mat \<Rightarrow> 'a heap \<Rightarrow> 'b Mat \<Rightarrow> 'b heap \<Rightarrow> int \<Rightarrow> int \<Rightarrow> int \<Rightarrow> error + bool" where
  "eq_cols ne m1 h1 m2 h2 i j n =
     (if j < n
      then ebind (at_elem m1 h1 i j) (\<lambda>x.
           ebind (at_elem m2 h2 i j) (\<lambda>y.
             if ne x y then Inr False else eq_cols ne m1 h1 m2 h2 i (j + 1) n))
      else Inr True)"
  by pat_completeness auto
termination
  by (relation "measure (\<lambda>(ne, m1, h1, m2, h2, i, j, n). nat (n - j))") auto

declare eq_cols.simps [simp del]

function eq_rows ::
  "('a \<Rightarrow> 'b \<Rightarrow> bool) \<Rightarrow> 'a Mat \<Rightarrow> 'a heap \<Rightarrow> 'b Mat \<Rightarrow> 'b heap \<Rightarrow> int \<Rightarrow> int \<Rightarrow> error + bool" where
  "eq_rows ne m1 h1 m2 h2 i n =
     (if i < n
      then ebind (eq_cols ne m1 h1 m2 h2 i 0 (cols m1)) (\<lambda>b.
             if b then eq_rows ne m1 h1 m2 h2 (i + 1) n else Inr False)
      else Inr True)"
  by pat_completeness auto
termination
  by (relation "measure (\<lambda>(ne, m1, h1, m2, h2, i, n). nat (n - i))") auto

declare eq_rows.simps [simp del]

definition operator_eq ::
  "('a \<Rightarrow> 'b \<Rightarrow> bool) \<Rightarrow> 'a Mat \<Rightarrow> 'a heap \<Rightarrow> 'b Mat \<Rightarrow> 'b heap \<Rightarrow> error + bool" where
  "operator_eq ne m1 h1 m2 h2 =
     (if rows m1 \<noteq> rows m2 \<or> cols m1 \<noteq> cols m2 then Inr False
      else eq_rows ne m1 h1 m2 h2 0 (rows m1))"

subsection \<open>Observations used to state the properties\<close>

text \<open>All elements of a matrix, row by row, each as \<^verbatim>\<open>at(i, j)\<close> yields it.\<close>

definition elements :: "'a Mat \<Rightarrow> 'a heap \<Rightarrow> (error + 'a) list list" where
  "elements m h = map (\<lambda>i. map (\<lambda>j. at_elem m h i j) [0..cols m - 1]) [0..rows m - 1]"

text \<open>Every in-range element of the matrix can be read (its storage is allocated and written).\<close>

definition readable :: "'a Mat \<Rightarrow> 'a heap \<Rightarrow> bool" where
  "readable m h = (\<forall>i \<in> {0..<rows m}. \<forall>j \<in> {0..<cols m}. \<not> isl (at_elem m h i j))"

text \<open>A matrix object given by its members, with no cached inverse.\<close>

definition Mat_obj :: "addr \<Rightarrow> int \<Rightarrow> int \<Rightarrow> 64 word \<Rightarrow> 'a \<Rightarrow> 'a Mat" where
  "Mat_obj p r c msk d =
     \<lparr>mat = p, n_rows = r, n_cols = c, stickyComputeMask = msk, det_m = d, inv_m = None\<rparr>"

section \<open>Properties\<close>

text \<open>
  C1. For \<open>M = [[2,1],[1,1]]\<close> over the rationals: \<^verbatim>\<open>det(M)\<close> returns \<open>1\<close>; \<^verbatim>\<open>inv(M)\<close>
  and \<^verbatim>\<open>rref(M, eye(2))\<close> return \<open>[[1,-1],[-1,2]]\<close>; \<^verbatim>\<open>rref(M)\<close> returns a 2 by 2 matrix
  with the elements of \<^verbatim>\<open>eye(2)\<close>.
\<close>

theorem concrete_scenario_2x2:
  "(case Mat_init [[2, 1], [1, 1 :: rat]] [] of
      Inl e \<Rightarrow> False
    | Inr (M, h) \<Rightarrow>
        (case det (M, h) of Inl e \<Rightarrow> False | Inr (d, M', h') \<Rightarrow> d = 1) \<and>
        (case inv_mat (M, h) of
           Inl e \<Rightarrow> False
         | Inr (R, M', h') \<Rightarrow> elements R h' = [[Inr 1, Inr (- 1)], [Inr (- 1), Inr 2]]) \<and>
        (case Mat_fill (\<lambda>i j. 0) 2 2 fill_eye h of
           Inl e \<Rightarrow> False
         | Inr (E, h1) \<Rightarrow>
             (case rref_aug M E h1 of
                Inl e \<Rightarrow> False
              | Inr (R, h') \<Rightarrow> elements R h' = [[Inr 1, Inr (- 1)], [Inr (- 1), Inr 2]])) \<and>
        (case rref M h of
           Inl e \<Rightarrow> False
         | Inr (R, h') \<Rightarrow>
             rows R = 2 \<and> cols R = 2 \<and> elements R h' = [[Inr 1, Inr 0], [Inr 0, Inr 1]] \<and>
             (case Mat_fill (\<lambda>i j. 0) 2 2 fill_eye h' of
                Inl e \<Rightarrow> False
              | Inr (E, h1) \<Rightarrow> elements E h1 = elements R h')))"
  by code_simp

text \<open>
  C2, evaluated where the code leaves the claim. In \<open>[[0,0,1],[0,1,0],[1,0,0]]\<close> the
  pivot of row \<open>0\<close> is found in row \<open>2\<close>, so rows \<open>2\<close> and \<open>0\<close> are swapped; the factor
  applied is \<^verbatim>\<open>((i - r) % 2) == 0 ? 1 : -1\<close>, which is \<open>1\<close>, and \<^verbatim>\<open>det\<close> returns \<open>1\<close> for a
  matrix of determinant \<open>-1\<close>. In \<open>[[0,1],[0,1]]\<close> column \<open>0\<close> holds no pivot; \<^verbatim>\<open>det\<close> does
  not return \<open>0\<close> but goes on to read column \<open>2\<close> of row \<open>1\<close>, past the buffer.
\<close>

theorem det_ignores_even_distance_swap:
  "(case Mat_init [[0, 0, 1], [0, 1, 0], [1, 0, 0 :: rat]] [] of
      Inl e \<Rightarrow> False
    | Inr (M, h) \<Rightarrow>
        pivot_search M h 0 0 0 = Inr (Some (2, 0)) \<and>
        (case det (M, h) of Inl e \<Rightarrow> False | Inr (d, M', h') \<Rightarrow> d = 1 \<and> d \<noteq> - 1))
   \<and> (case Mat_init [[0, 1], [0, 1 :: rat]] [] of
      Inl e \<Rightarrow> False
    | Inr (M, h) \<Rightarrow> det (M, h) = Inl UndefinedBehaviour)"
  by code_simp

text \<open>
  C3, evaluated where the code leaves the claim. The guard of the row loop is
  \<^verbatim>\<open>cols() < lead\<close>, so the loop goes on when \<open>lead = cols\<close>. For the 2 by 1 matrix
  \<open>[[1],[1]]\<close>, row \<open>1\<close> is entered with \<open>lead = 1\<close>: \<^verbatim>\<open>at(1, 1)\<close> passes the bounds check
  of \<^verbatim>\<open>_address\<close> (offset \<open>2\<close> in a buffer of two cells) and reads past the buffer.
\<close>

theorem rref_reads_column_cols:
  "(case Mat_init [[1], [1 :: rat]] [] of
      Inl e \<Rightarrow> False
    | Inr (M, h) \<Rightarrow>
        rows M = 2 \<and> cols M = 1 \<and>
        address M 1 1 = Inr 2 \<and>
        at_elem M h 1 1 = Inl UndefinedBehaviour \<and>
        rref M h = Inl UndefinedBehaviour)"
  by code_simp

text \<open>
  C4, evaluated where the code leaves the claim. \<^verbatim>\<open>_address\<close> tests \<^verbatim>\<open>row > _n_rows\<close> and
  \<^verbatim>\<open>col > _n_cols\<close>: for a 2 by 2 matrix \<^verbatim>\<open>at(0, 2)\<close> does not throw and returns the
  element \<open>(1, 0)\<close>; \<^verbatim>\<open>at(2, 0)\<close> does not throw and reads past the buffer. The first
  index that throws \<^verbatim>\<open>OutOfBounds\<close> is \<open>3\<close>.
\<close>

theorem at_accepts_index_equal_to_dimension:
  "(case Mat_init [[1, 2], [3, 4 :: int]] [] of
      Inl e \<Rightarrow> False
    | Inr (M, h) \<Rightarrow>
        rows M = 2 \<and> cols M = 2 \<and>
        at_elem M h 0 2 = Inr 3 \<and>
        at_elem M h 2 0 = Inl UndefinedBehaviour \<and>
        at_elem M h 2 2 = Inl UndefinedBehaviour \<and>
        at_elem M h 3 0 = Inl OutOfBoundsError \<and>
        at_elem M h 0 3 = Inl OutOfBoundsError)"
  by code_simp

text \<open>
  C5, evaluated where the code leaves the claim. The view \<^verbatim>\<open>range(0, 0, 0, 0)\<close> of a
  3 by 3 matrix is 1 by 1, yet \<^verbatim>\<open>SubMat::at\<close> tests \<^verbatim>\<open>row > _n_rows\<close> and
  \<^verbatim>\<open>col > _n_cols\<close>: \<^verbatim>\<open>at(1, 1)\<close>, \<^verbatim>\<open>at(0, 1)\<close> and \<^verbatim>\<open>at(1, 0)\<close> return elements of the
  parent outside the sub-range.
\<close>

theorem sub_range_reads_outside_region:
  "(case Mat_init [[1, 2, 3], [4, 5, 6], [7, 8, 9 :: int]] [] of
      Inl e \<Rightarrow> False
    | Inr (M, h) \<Rightarrow>
        range_v (Owner M) 1 0 0 0 = Inl BadDimensionsError \<and>
        range_v (Owner M) 0 0 1 0 = Inl BadDimensionsError \<and>
        (case range_v (Owner M) 0 0 0 0 of
           Inl e \<Rightarrow> False
         | Inr v \<Rightarrow>
             rows_v v = 1 \<and> cols_v v = 1 \<and>
             at_v v h 0 0 = Inr 1 \<and>
             at_v v h 1 1 = Inr 5 \<and>
             at_v v h 0 1 = Inr 2 \<and>
             at_v v h 1 0 = Inr 4 \<and>
             at_v v h 2 0 = Inl OutOfBoundsError))"
  by code_simp

text \<open>
  C6. The transpose view has the rows of the parent as columns and its columns as rows,
  and \<^verbatim>\<open>t().at(r, c)\<close> is \<^verbatim>\<open>parent.at(c, r)\<close> for all indices (with the same exception
  where the parent throws); for \<open>M = [[1,2,3],[4,5,6]]\<close>, \<^verbatim>\<open>t(M).rows()\<close> is \<open>3\<close>,
  \<^verbatim>\<open>t(M).cols()\<close> is \<open>2\<close> and \<^verbatim>\<open>t(M).at(2, 1)\<close> is \<open>6\<close>. (This is \<^verbatim>\<open>MatTr\<close> of the
  current \<^verbatim>\<open>Mat.h\<close>; an earlier revision kept in the repository assigns the two
  dimensions unswapped.)
\<close>

theorem transpose_view:
  "rows_v (t v) = cols_v v \<and> cols_v (t v) = rows_v v \<and> at_v (t v) h r c = at_v v h c r \<and>
   (case Mat_init [[1, 2, 3], [4, 5, 6 :: int]] [] of
      Inl e \<Rightarrow> False
    | Inr (M, h') \<Rightarrow>
        rows_v (t (Owner M)) = 3 \<and> cols_v (t (Owner M)) = 2 \<and> at_v (t (Owner M)) h' 2 1 = Inr 6)"
proof -
  have general: "rows_v (t v) = cols_v v \<and> cols_v (t v) = rows_v v \<and> at_v (t v) h r c = at_v v h c r"
    by (simp add: t_def MatTr_ctor_def rows_v_def cols_v_def rows_def cols_def)
  have scenario: "(case Mat_init [[1, 2, 3], [4, 5, 6 :: int]] [] of
      Inl e \<Rightarrow> False
    | Inr (M, h') \<Rightarrow>
        rows_v (t (Owner M)) = 3 \<and> cols_v (t (Owner M)) = 2 \<and> at_v (t (Owner M)) h' 2 1 = Inr 6)"
    by code_simp
  from general scenario show ?thesis by blast
qed

text \<open>
  C7, evaluated where the code leaves the claim. \<^verbatim>\<open>rref(Mat<T> _m2)\<close> works on
  \<^verbatim>\<open>_m2Clone\<close>, a member-wise copy that shares the buffer of the caller's matrix:
  after \<^verbatim>\<open>M.rref(E)\<close> with \<open>E = eye(2)\<close>, the elements of the caller's \<open>E\<close> are those
  of the inverse of \<open>M\<close>. \<open>M\<close> itself is unchanged, there and after \<^verbatim>\<open>det()\<close>,
  \<^verbatim>\<open>rref()\<close> and \<^verbatim>\<open>inv()\<close>.
\<close>

theorem rref_augmented_overwrites_operand:
  "(case Mat_init [[2, 1], [1, 1 :: rat]] [] of
      Inl e \<Rightarrow> False
    | Inr (M, h) \<Rightarrow>
        (case Mat_fill (\<lambda>i j. 0) 2 2 fill_eye h of
           Inl e \<Rightarrow> False
         | Inr (E, h1) \<Rightarrow>
             elements E h1 = [[Inr 1, Inr 0], [Inr 0, Inr 1]] \<and>
             (case rref_aug M E h1 of
                Inl e \<Rightarrow> False
              | Inr (R, h2) \<Rightarrow>
                  mat R = mat E \<and>
                  elements E h2 = [[Inr 1, Inr (- 1)], [Inr (- 1), Inr 2]] \<and>
                  elements M h2 = [[Inr 2, Inr 1], [Inr 1, Inr 1]])) \<and>
        (case det (M, h) of
           Inl e \<Rightarrow> False
         | Inr (d, M', h') \<Rightarrow> elements M' h' = [[Inr 2, Inr 1], [Inr 1, Inr 1]]) \<and>
        (case rref M h of
           Inl e \<Rightarrow> False
         | Inr (R, h') \<Rightarrow> elements M h' = [[Inr 2, Inr 1], [Inr 1, Inr 1]]) \<and>
        (case inv_mat (M, h) of
           Inl e \<Rightarrow> False
         | Inr (R, M', h') \<Rightarrow> elements M' h' = [[Inr 2, Inr 1], [Inr 1, Inr 1]]))"
  by code_simp

subsection \<open>The sticky cache\<close>

text \<open>
  The transitions of the cache that the code has: a successful \<^verbatim>\<open>set\<close> clears the whole
  mask; \<^verbatim>\<open>det()\<close> on an object whose determinant bit is set returns the stored value and
  touches neither the object nor the heap; with the bit clear, the value \<^verbatim>\<open>det()\<close>
  returns does not depend on the stored one; and a \<^verbatim>\<open>det()\<close> whose row loop runs through
  all rows sets the bit and stores the value it returns.
\<close>

lemma DET_MASK_nonzero: "ORCA_STICKY_COMPUTE_DET_MASK \<noteq> 0"
  by (simp add: ORCA_STICKY_COMPUTE_DET_MASK_def)

lemma DET_MASK_set: "(w OR ORCA_STICKY_COMPUTE_DET_MASK) AND ORCA_STICKY_COMPUTE_DET_MASK \<noteq> 0"
proof -
  have "(w OR ORCA_STICKY_COMPUTE_DET_MASK) AND ORCA_STICKY_COMPUTE_DET_MASK = ORCA_STICKY_COMPUTE_DET_MASK"
    by (simp add: bit_eq_iff bit_and_iff bit_or_iff)
  then show ?thesis using DET_MASK_nonzero by simp
qed

lemma set_elem_mask: "set_elem row col v s = Inr (m', h') \<Longrightarrow> stickyComputeMask m' = 0"
  by (auto simp: set_elem_def split: prod.splits sum.splits)

lemma at_elem_det_m_update: "at_elem (m\<lparr>det_m := d\<rparr>) = at_elem m"
  by (intro ext) (simp add: at_elem_def address_def)

lemma Mat_from_ptr_det_m_update: "Mat_from_ptr (m\<lparr>det_m := d\<rparr>) h = Mat_from_ptr m h"
  by (simp add: Mat_from_ptr_def rows_def cols_def at_elem_det_m_update cong del: ebind_weak_cong)

lemma det_cached: "stickyComputeMask m AND ORCA_STICKY_COMPUTE_DET_MASK \<noteq> 0 \<Longrightarrow> det (m, h) = Inr (det_m m, m, h)"
  by (simp add: det_def)

lemma det_value_ignores_stale:
  assumes "stickyComputeMask m AND ORCA_STICKY_COMPUTE_DET_MASK = 0"
  shows "map_sum id fst (det (m\<lparr>det_m := stale\<rparr>, h)) = map_sum id fst (det (m, h))"
  using assms
  by (auto simp: det_def Mat_from_ptr_det_m_update ebind_def split: sum.splits loop_exit.splits prod.splits)

lemma det_completed_caches:
  assumes "stickyComputeMask m AND ORCA_STICKY_COMPUTE_DET_MASK = 0"
    and "Mat_from_ptr m h = Inr c"
    and "det_loop (rows (fst c)) 0 0 1 c = Inr (Completed x)"
    and "det (m, h) = Inr (d, m', h')"
  shows "stickyComputeMask m' AND ORCA_STICKY_COMPUTE_DET_MASK \<noteq> 0 \<and> det_m m' = d"
  using assms DET_MASK_set[of "stickyComputeMask m"]
  by (auto simp: det_def ebind_def split: sum.splits prod.splits if_splits)

text \<open>
  C8, evaluated where the code leaves the claim. \<^verbatim>\<open>det()\<close> of the 1 by 1 matrix \<open>[[0]]\<close>
  finds no pivot and leaves through the \<^verbatim>\<open>return 0\<close> inside the row loop: the call
  succeeds with \<open>0\<close>, but the mask and \<^verbatim>\<open>_det\<close> are not written, so the determinant
  stays invalid. The exit at the end of the loop does write both (\<open>[[5]]\<close> below), and
  \<^verbatim>\<open>inv()\<close> sets its bit even for the singular \<open>[[0]]\<close>. The other transitions are as
  the claim has them (\<open>set_elem_mask\<close>, \<open>det_cached\<close>, \<open>det_value_ignores_stale\<close>,
  \<open>det_completed_caches\<close> above).
\<close>

theorem det_singular_result_not_cached:
  "Mat_init [[0 :: rat]] [] = Inr (Mat_obj 0 1 1 0 0, [[Some 0]]) \<and>
   det (Mat_obj 0 1 1 0 (0 :: rat), [[Some 0]])
     = Inr (0, Mat_obj 0 1 1 0 0, [[Some 0], [Some 0]]) \<and>
   stickyComputeMask (Mat_obj 0 1 1 0 (0 :: rat)) AND ORCA_STICKY_COMPUTE_DET_MASK = 0 \<and>
   (case det (Mat_obj 0 1 1 0 (0 :: rat), [[Some 5]]) of
      Inl e \<Rightarrow> False
    | Inr (d, M', h') \<Rightarrow>
        d = 5 \<and> det_m M' = 5 \<and> stickyComputeMask M' AND ORCA_STICKY_COMPUTE_DET_MASK \<noteq> 0) \<and>
   (case inv_mat (Mat_obj 0 1 1 0 (0 :: rat), [[Some 0]]) of
      Inl e \<Rightarrow> False
    | Inr (R, M', h') \<Rightarrow> stickyComputeMask M' AND ORCA_STICKY_COMPUTE_INV_MASK \<noteq> 0)"
  by code_simp

text \<open>
  C9, evaluated where the code leaves the claim. \<^verbatim>\<open>Vec<T>::_allocate\<close> tests
  \<^verbatim>\<open>_n_elems < 0\<close> only: \<^verbatim>\<open>Vec(0)\<close> is constructed, with \<open>1\<close> row and \<open>0\<close> columns, and a
  negative length is rejected with \<^verbatim>\<open>EmptyElement\<close>, not \<^verbatim>\<open>BadDimensions\<close>.
  \<^verbatim>\<open>Mat<T>::_allocate\<close> rejects both as the claim says.
\<close>

theorem Vec_allocate_accepts_zero:
  "(case Vec_elements 0 ([] :: int heap) of
      Inl e \<Rightarrow> False
    | Inr (v, h) \<Rightarrow> n_rows v = 1 \<and> n_cols v = 0 \<and> length_vec v = 0) \<and>
   Vec_elements (- 1) ([] :: int heap) = Inl EmptyElementError \<and>
   Mat_dims 0 3 ([] :: int heap) = Inl EmptyElementError \<and>
   Mat_dims 3 (- 1) ([] :: int heap) = Inl BadDimensionsError"
  by code_simp

subsection \<open>Comparison\<close>

lemma eq_cols_result:
  assumes "\<forall>j'. j \<le> j' \<and> j' < n \<longrightarrow> \<not> isl (at_elem m1 h1 i j') \<and> \<not> isl (at_elem m2 h2 i j')"
  shows "eq_cols ne m1 h1 m2 h2 i j n =
           Inr (\<forall>j'. j \<le> j' \<and> j' < n \<longrightarrow>
                  \<not> ne (projr (at_elem m1 h1 i j')) (projr (at_elem m2 h2 i j')))"
  using assms
proof (induction ne m1 h1 m2 h2 i j n rule: eq_cols.induct)
  case (1 ne m1 h1 m2 h2 i j n)
  show ?case
  proof (cases "j < n")
    case False
    then show ?thesis by (subst eq_cols.simps) auto
  next
    case True
    from "1.prems" True obtain x y where
      x: "at_elem m1 h1 i j = Inr x" and y: "at_elem m2 h2 i j = Inr y"
      by (metis order_refl sum.collapse(2))
    show ?thesis
    proof (cases "ne x y")
      case True
      with \<open>j < n\<close> x y show ?thesis
        by (subst eq_cols.simps) (auto intro: exI[of _ j])
    next
      case False
      have rest: "\<forall>j'. j + 1 \<le> j' \<and> j' < n \<longrightarrow>
                    \<not> isl (at_elem m1 h1 i j') \<and> \<not> isl (at_elem m2 h2 i j')"
        using "1.prems" by auto
      have step: "eq_cols ne m1 h1 m2 h2 i j n = eq_cols ne m1 h1 m2 h2 i (j + 1) n"
        using \<open>j < n\<close> x y False by (subst eq_cols.simps) simp
      have split: "(\<forall>j'. j \<le> j' \<and> j' < n \<longrightarrow> Q j') \<longleftrightarrow>
                   Q j \<and> (\<forall>j'. j + 1 \<le> j' \<and> j' < n \<longrightarrow> Q j')" for Q
        using \<open>j < n\<close> by (metis add1_zle_eq order_le_less order_refl)
      show ?thesis
        unfolding step "1.IH"[OF \<open>j < n\<close> x y False rest]
        by (subst split) (simp add: x y False)
    qed
  qed
qed

lemma eq_rows_result:
  assumes "\<forall>i'. i \<le> i' \<and> i' < n \<longrightarrow>
             (\<forall>j'. 0 \<le> j' \<and> j' < cols m1 \<longrightarrow>
                \<not> isl (at_elem m1 h1 i' j') \<and> \<not> isl (at_elem m2 h2 i' j'))"
  shows "eq_rows ne m1 h1 m2 h2 i n =
           Inr (\<forall>i'. i \<le> i' \<and> i' < n \<longrightarrow>
                  (\<forall>j'. 0 \<le> j' \<and> j' < cols m1 \<longrightarrow>
                     \<not> ne (projr (at_elem m1 h1 i' j')) (projr (at_elem m2 h2 i' j'))))"
  using assms
proof (induction ne m1 h1 m2 h2 i n rule: eq_rows.induct)
  case (1 ne m1 h1 m2 h2 i n)
  show ?case
  proof (cases "i < n")
    case False
    then show ?thesis by (subst eq_rows.simps) auto
  next
    case True
    have row: "eq_cols ne m1 h1 m2 h2 i 0 (cols m1) =
                 Inr (\<forall>j'. 0 \<le> j' \<and> j' < cols m1 \<longrightarrow>
                        \<not> ne (projr (at_elem m1 h1 i j')) (projr (at_elem m2 h2 i j')))"
      using "1.prems" True by (intro eq_cols_result) auto
    have split: "(\<forall>i'. i \<le> i' \<and> i' < n \<longrightarrow> Q i') \<longleftrightarrow>
                 Q i \<and> (\<forall>i'. i + 1 \<le> i' \<and> i' < n \<longrightarrow> Q i')" for Q
      using \<open>i < n\<close> by (metis add1_zle_eq order_le_less order_refl)
    show ?thesis
    proof (cases "\<forall>j'. 0 \<le> j' \<and> j' < cols m1 \<longrightarrow>
                        \<not> ne (projr (at_elem m1 h1 i j')) (projr (at_elem m2 h2 i j'))")
      case False
      with True row show ?thesis
        by (subst eq_rows.simps, subst split) simp
    next
      case allcols: True
      have rest: "\<forall>i'. i + 1 \<le> i' \<and> i' < n \<longrightarrow>
                    (\<forall>j'. 0 \<le> j' \<and> j' < cols m1 \<longrightarrow>
                       \<not> isl (at_elem m1 h1 i' j') \<and> \<not> isl (at_elem m2 h2 i' j'))"
        using "1.prems" by auto
      have step: "eq_rows ne m1 h1 m2 h2 i n = eq_rows ne m1 h1 m2 h2 (i + 1) n"
        using \<open>i < n\<close> row allcols by (subst eq_rows.simps) simp
      from row allcols have row': "eq_cols ne m1 h1 m2 h2 i 0 (cols m1) = Inr True"
        by simp
      have ih: "eq_rows ne m1 h1 m2 h2 (i + 1) n =
                  Inr (\<forall>i'. i + 1 \<le> i' \<and> i' < n \<longrightarrow>
                         (\<forall>j'. 0 \<le> j' \<and> j' < cols m1 \<longrightarrow>
                            \<not> ne (projr (at_elem m1 h1 i' j')) (projr (at_elem m2 h2 i' j'))))"
        using "1.IH"[OF \<open>i < n\<close> row'] rest by simp
      show ?thesis
        unfolding step ih
        by (subst split) (use allcols in simp)
    qed
  qed
qed

text \<open>
  C10. For two matrices whose in-range elements can be read, \<^verbatim>\<open>m1 == m2\<close> returns
  \<open>true\<close> exactly when they have the same numbers of rows and of columns and no
  in-range pair of elements differs under the scalars' \<^verbatim>\<open>!=\<close>; in particular
  matrices of different shape compare \<open>false\<close>, without an exception.
\<close>

theorem operator_eq_iff:
  assumes "readable m1 h1" and "readable m2 h2"
  shows "operator_eq ne m1 h1 m2 h2 =
           Inr (rows m1 = rows m2 \<and> cols m1 = cols m2 \<and>
                (\<forall>i \<in> {0..<rows m1}. \<forall>j \<in> {0..<cols m1}.
                   \<exists>x y. at_elem m1 h1 i j = Inr x \<and> at_elem m2 h2 i j = Inr y \<and> \<not> ne x y))"
proof (cases "rows m1 \<noteq> rows m2 \<or> cols m1 \<noteq> cols m2")
  case True
  then show ?thesis by (auto simp: operator_eq_def)
next
  case False
  then have dims: "rows m2 = rows m1" "cols m2 = cols m1" by auto
  have rd: "\<forall>i'. 0 \<le> i' \<and> i' < rows m1 \<longrightarrow>
              (\<forall>j'. 0 \<le> j' \<and> j' < cols m1 \<longrightarrow>
                 \<not> isl (at_elem m1 h1 i' j') \<and> \<not> isl (at_elem m2 h2 i' j'))"
    using assms dims by (auto simp: readable_def)
  have "operator_eq ne m1 h1 m2 h2 = eq_rows ne m1 h1 m2 h2 0 (rows m1)"
    using False by (simp add: operator_eq_def)
  also have "\<dots> = Inr (\<forall>i'. 0 \<le> i' \<and> i' < rows m1 \<longrightarrow>
                  (\<forall>j'. 0 \<le> j' \<and> j' < cols m1 \<longrightarrow>
                     \<not> ne (projr (at_elem m1 h1 i' j')) (projr (at_elem m2 h2 i' j'))))"
    by (rule eq_rows_result[OF rd])
  also have "\<dots> = Inr (rows m1 = rows m2 \<and> cols m1 = cols m2 \<and>
                (\<forall>i \<in> {0..<rows m1}. \<forall>j \<in> {0..<cols m1}.
                   \<exists>x y. at_elem m1 h1 i j = Inr x \<and> at_elem m2 h2 i j = Inr y \<and> \<not> ne x y))"
  proof -
    have "\<not> ne (projr (at_elem m1 h1 i j)) (projr (at_elem m2 h2 i j)) \<longleftrightarrow>
          (\<exists>x y. at_elem m1 h1 i j = Inr x \<and> at_elem m2 h2 i j = Inr y \<and> \<not> ne x y)"
      if "0 \<le> i" "i < rows m1" "0 \<le> j" "j < cols m1" for i j
    proof -
      from rd that obtain x y where "at_elem m1 h1 i j = Inr x" "at_elem m2 h2 i j = Inr y"
        by (metis sum.collapse(2))
      then show ?thesis by simp
    qed
    then show ?thesis using dims by auto
  qed
  finally show ?thesis .
qed

text \<open>
  An instance with two scalar types: an integer and a rational 2 by 2 matrix with the
  same elements compare equal.
\<close>

theorem operator_eq_iff_witness:
  "readable (Mat_obj 0 2 2 0 (0 :: int)) [[Some 1, Some 2, Some 3, Some 4]] \<and>
   readable (Mat_obj 0 2 2 0 (0 :: rat)) [[Some 1, Some 2, Some 3, Some 4]] \<and>
   operator_eq (\<lambda>x y. rat_of_int x \<noteq> y)
     (Mat_obj 0 2 2 0 0) [[Some 1, Some 2, Some 3, Some 4]]
     (Mat_obj 0 2 2 0 0) [[Some 1, Some 2, Some 3, Some 4]] = Inr True"
proof -
  let ?m1 = "Mat_obj 0 2 2 0 (0 :: int)"
  let ?h1 = "[[Some 1, Some 2, Some 3, Some (4 :: int)]]"
  let ?m2 = "Mat_obj 0 2 2 0 (0 :: rat)"
  let ?h2 = "[[Some 1, Some 2, Some 3, Some (4 :: rat)]]"
  have r1: "readable ?m1 ?h1" by code_simp
  have r2: "readable ?m2 ?h2" by code_simp
  have v1: "at_elem ?m1 ?h1 0 0 = Inr 1" "at_elem ?m1 ?h1 0 1 = Inr 2"
           "at_elem ?m1 ?h1 1 0 = Inr 3" "at_elem ?m1 ?h1 1 1 = Inr 4"
    by code_simp+
  have v2: "at_elem ?m2 ?h2 0 0 = Inr 1" "at_elem ?m2 ?h2 0 1 = Inr 2"
           "at_elem ?m2 ?h2 1 0 = Inr 3" "at_elem ?m2 ?h2 1 1 = Inr 4"
    by code_simp+
  have d: "rows ?m1 = 2" "cols ?m1 = 2" "rows ?m2 = 2" "cols ?m2 = 2"
    by (simp_all add: rows_def cols_def Mat_obj_def)
  have s: "{0..<2 :: int} = {0, 1}" by auto
  from operator_eq_iff[OF r1 r2, of "\<lambda>x y. rat_of_int x \<noteq> y"]
  have "operator_eq (\<lambda>x y. rat_of_int x \<noteq> y) ?m1 ?h1 ?m2 ?h2 = Inr True"
    by (simp add: d s v1 v2)
  with r1 r2 show ?thesis by simp
qed


end
